theory Spec2Isabelle
  imports Complex_Main
begin

section \<open>Data model\<close>

text \<open>
  The repository (\<^verbatim>\<open>src/trend_analysis.py\<close>) works on an xarray dataset. The model keeps
  what the two functions \<^verbatim>\<open>convert_time_to_numeric\<close> and \<^verbatim>\<open>compute_linear_trend\<close> read
  from it:
  \<^item> the entry named \<^verbatim>\<open>time\<close>, a one-dimensional array that holds either
    \<^verbatim>\<open>cftime.datetime\<close> objects (dtype object) or \<^verbatim>\<open>datetime64\<close> values, each of
    the latter being its stored integer count since the epoch;
  \<^item> the numeric variables by name, each with its dimension names and its values
    arranged as one series along \<^verbatim>\<open>time\<close> per combination of the other coordinates,
    in the order in which numpy visits them.
  Floating-point numbers are real numbers (rounding and infinities are not modelled)
  with one extra value for NaN.
\<close>

datatype py_error = IndexError | ValueError | TypeError | KeyError

datatype fl = NaN | Fin real

record cftime =
  year :: int
  month :: nat
  day :: nat

datatype time_array = CFTimeArray "cftime list" | DateTime64Array "int list"

record data_array =
  dims :: "string list"
  series :: "fl list list"

record dataset =
  time_var :: "time_array option"
  data_vars :: "string \<rightharpoonup> data_array"

text \<open>
  What the functions print, one constructor per \<^verbatim>\<open>print\<close> statement, with the
  values that the text is formatted from (the text of a caught exception is left out).
\<close>

datatype message =
    Msg_no_time_variable
  | Msg_converting_cftime
  | Msg_time_range real real int
  | Msg_computing_trend string
  | Msg_variable_not_found string
  | Msg_no_time_dimension
  | Msg_time_conversion_failed
  | Msg_not_enough_time_points
  | Msg_trend_computed string
  | Msg_trend_failed

text \<open>\<^verbatim>\<open>name in ds\<close>: the name \<^verbatim>\<open>time\<close> is the time coordinate, any other a variable.\<close>

definition in_ds :: "dataset \<Rightarrow> string \<Rightarrow> bool" where
  "in_ds ds name =
     (if name = ''time'' then time_var ds \<noteq> None else data_vars ds name \<noteq> None)"

text \<open>Python's \<^verbatim>\<open>round\<close> with one argument: to the nearest integer, ties to even.\<close>

definition py_round :: "real \<Rightarrow> int" where
  "py_round x =
     (let f = \<lfloor>x\<rfloor>; d = x - of_int f
      in if d < 1 / 2 then f else if 1 / 2 < d then f + 1
         else if even f then f else f + 1)"

section \<open>Time conversion\<close>

text \<open>
  \<^verbatim>\<open>convert_time_to_numeric(ds)\<close>. The result pairs what was printed with the outcome:
  \<open>Inl e\<close> is an exception that leaves the function, \<open>Inr None\<close> is the returned
  \<^verbatim>\<open>None\<close>, \<open>Inr (Some xs)\<close> the returned array.
  \<^item> \<^verbatim>\<open>time_var.values[0]\<close> raises IndexError on an empty array;
  \<^item> in the cftime branch \<^verbatim>\<open>numeric_time[1]\<close>, read for the printed step, raises
    IndexError when there is one timestamp only;
  \<^item> otherwise \<^verbatim>\<open>astype(float)\<close> turns each stored integer into the float of the
    same value.
\<close>

definition convert_time_to_numeric ::
  "dataset \<Rightarrow> message list \<times> (py_error + real list option)" where
  "convert_time_to_numeric ds =
     (case time_var ds of
        None \<Rightarrow> ([Msg_no_time_variable], Inr None)
      | Some (CFTimeArray []) \<Rightarrow> ([], Inl IndexError)
      | Some (DateTime64Array []) \<Rightarrow> ([], Inl IndexError)
      | Some (CFTimeArray (t # ts)) \<Rightarrow>
          (let numeric_time =
                 map (\<lambda>t. of_int (year t) + of_nat (month t) / 12) (t # ts);
               start_year = hd numeric_time;
               end_year = last numeric_time
           in if length numeric_time < 2 then ([Msg_converting_cftime], Inl IndexError)
              else
                (let frequency = py_round ((numeric_time ! 1 - numeric_time ! 0) * 12)
                 in ([Msg_converting_cftime, Msg_time_range start_year end_year frequency],
                     Inr (Some numeric_time))))
      | Some (DateTime64Array (k # ks)) \<Rightarrow> ([], Inr (Some (map of_int (k # ks)))))"

section \<open>Trend computation\<close>

text \<open>
  \<^verbatim>\<open>scipy.stats.linregress\<close> is imported from a library; \<^verbatim>\<open>compute_linear_trend\<close>
  takes it as the argument \<open>linregress\<close>. A call either raises or returns the five
  statistics that the helper \<^verbatim>\<open>linreg\<close> unpacks.
\<close>

record linregress_result =
  slope :: fl
  intercept :: fl
  rvalue :: fl
  pvalue :: fl
  stderr :: fl

type_synonym regression = "real list \<Rightarrow> fl list \<Rightarrow> py_error + linregress_result"

text \<open>The nested helper \<^verbatim>\<open>linreg(y)\<close>, closed over \<^verbatim>\<open>time_values\<close>.\<close>

definition linreg :: "regression \<Rightarrow> real list \<Rightarrow> fl list \<Rightarrow> py_error + fl \<times> fl" where
  "linreg linregress time_values y =
     (case linregress time_values y of
        Inl e \<Rightarrow> Inl e
      | Inr r \<Rightarrow> Inr (slope r, pvalue r))"

text \<open>
  \<^verbatim>\<open>numpy.vectorize\<close> with a signature calls the function once per index of the loop
  dimensions, in order; the first exception leaves the loop.
\<close>

fun vectorize :: "('a \<Rightarrow> py_error + 'b) \<Rightarrow> 'a list \<Rightarrow> py_error + 'b list" where
  "vectorize f [] = Inr []"
| "vectorize f (y # ys) =
     (case f y of
        Inl e \<Rightarrow> Inl e
      | Inr r \<Rightarrow> (case vectorize f ys of Inl e \<Rightarrow> Inl e | Inr rs \<Rightarrow> Inr (r # rs)))"

text \<open>
  \<^verbatim>\<open>xr.apply_ufunc(linreg, var_data, input_core_dims=[["time"]],
  output_core_dims=[[], []], vectorize=True)\<close>: xarray raises ValueError when the
  variable lacks the core dimension, and numpy raises ValueError when the loop
  dimensions are empty and no output type was given (the function was never called).
\<close>

definition apply_ufunc ::
  "(fl list \<Rightarrow> py_error + fl \<times> fl) \<Rightarrow> data_array \<Rightarrow> py_error + fl list \<times> fl list" where
  "apply_ufunc f var_data =
     (if ''time'' \<notin> set (dims var_data) then Inl ValueError
      else if series var_data = [] then Inl ValueError
      else (case vectorize f (series var_data) of
              Inl e \<Rightarrow> Inl e
            | Inr rs \<Rightarrow> Inr (map fst rs, map snd rs)))"

text \<open>
  \<^verbatim>\<open>compute_linear_trend(ds, var_name)\<close>. \<open>Inr None\<close> is the returned pair
  \<^verbatim>\<open>(None, None)\<close>, \<open>Inr (Some (slope, p_value))\<close> the returned pair of arrays,
  \<open>Inl e\<close> an exception that reaches the caller. The call of
  \<^verbatim>\<open>convert_time_to_numeric\<close> is outside the \<^verbatim>\<open>try\<close>, so its exceptions are not
  caught. When \<^verbatim>\<open>var_name\<close> is \<^verbatim>\<open>time\<close> the regressed values are the timestamps
  themselves, on which the arithmetic of the regression raises.
\<close>

definition compute_linear_trend ::
  "regression \<Rightarrow> dataset \<Rightarrow> string \<Rightarrow>
     message list \<times> (py_error + (fl list \<times> fl list) option)" where
  "compute_linear_trend linregress ds var_name =
     (if \<not> in_ds ds var_name then
        ([Msg_computing_trend var_name, Msg_variable_not_found var_name], Inr None)
      else if \<not> in_ds ds ''time'' then
        ([Msg_computing_trend var_name, Msg_no_time_dimension], Inr None)
      else
        (case convert_time_to_numeric ds of
           (out, Inl e) \<Rightarrow> (Msg_computing_trend var_name # out, Inl e)
         | (out, Inr None) \<Rightarrow>
             (Msg_computing_trend var_name # out @ [Msg_time_conversion_failed], Inr None)
         | (out, Inr (Some time_values)) \<Rightarrow>
             (if length time_values < 2 then
                (Msg_computing_trend var_name # out @ [Msg_not_enough_time_points], Inr None)
              else
                (case (if var_name = ''time'' then Inl TypeError
                       else (case data_vars ds var_name of
                               None \<Rightarrow> Inl KeyError
                             | Some var_data \<Rightarrow>
                                 apply_ufunc (linreg linregress time_values) var_data)) of
                   Inl e \<Rightarrow>
                     (Msg_computing_trend var_name # out @ [Msg_trend_failed], Inr None)
                 | Inr (slope_arr, p_value_arr) \<Rightarrow>
                     (Msg_computing_trend var_name # out @ [Msg_trend_computed var_name],
                      Inr (Some (slope_arr, p_value_arr)))))))"

section \<open>The library regression\<close>

text \<open>
  A model of \<^verbatim>\<open>scipy.stats.linregress(x, y)\<close> on one-dimensional inputs, over the
  reals, used where a statement needs the library's own behaviour. The library wraps
  the routine in its handling of NaN and of small samples, which answers first:
  \<^item> an input that contains NaN gives NaN for every statistic, before anything else is
    looked at (the time values of this model are never NaN);
  \<^item> an input with fewer than two observations gives NaN for every statistic.

  Then the routine proper, in its order:
  \<^item> \<open>x\<close> values that are all identical raise ValueError (``Cannot calculate a linear
    regression if all x values are identical'');
  \<^item> inputs of different length make \<^verbatim>\<open>np.cov\<close> raise ValueError;
  \<^item> the slope is the covariance over the variance of \<open>x\<close>; the correlation is NaN
    when a variance is zero and the covariance is zero (a constant \<open>y\<close>); with two
    points the p-value is 1 or 0 by comparing \<^verbatim>\<open>y[0] == y[1]\<close>, otherwise it is the
    two-sided tail probability of Student's t with \<open>n - 2\<close> degrees of freedom.
\<close>

definition mean :: "real list \<Rightarrow> real" where
  "mean xs = sum_list xs / of_nat (length xs)"

text \<open>
  The two-sided tail probability of Student's t distribution with \<open>df\<close> degrees of
  freedom, by its finite trigonometric series (\<open>\<theta> = arctan (|t| / \<surd>df)\<close>).
\<close>

definition student_t_two_sided :: "nat \<Rightarrow> real \<Rightarrow> real" where
  "student_t_two_sided df t =
     (let th = arctan (\<bar>t\<bar> / sqrt (of_nat df)); c = cos th; s = sin th
      in if even df then
           1 - s * (\<Sum>k<df div 2. (\<Prod>j=1..k. (2 * of_nat j - 1) / (2 * of_nat j)) * c ^ (2 * k))
         else
           1 - 2 / pi * (th + s * c *
             (\<Sum>k<(df - 1) div 2. (\<Prod>j=1..k. (2 * of_nat j) / (2 * of_nat j + 1)) * c ^ (2 * k))))"

definition is_nan :: "fl \<Rightarrow> bool" where
  "is_nan v = (case v of NaN \<Rightarrow> True | Fin _ \<Rightarrow> False)"

definition fin :: "fl \<Rightarrow> real" where
  "fin v = (case v of NaN \<Rightarrow> 0 | Fin r \<Rightarrow> r)"

definition nan_result :: linregress_result where
  "nan_result = \<lparr>slope = NaN, intercept = NaN, rvalue = NaN, pvalue = NaN, stderr = NaN\<rparr>"

definition scipy_linregress :: regression where
  "scipy_linregress x y =
     (if list_ex is_nan y then Inr nan_result
      else if length x \<le> 1 \<or> length y \<le> 1 then Inr nan_result
      else if Max (set x) = Min (set x) then Inl ValueError
      else if length x \<noteq> length y then Inl ValueError
      else
        (let n = length x; ys = map fin y;
             xmean = mean x; ymean = mean ys;
             ssxm = mean (map (\<lambda>u. (u - xmean) ^ 2) x);
             ssym = mean (map (\<lambda>v. (v - ymean) ^ 2) ys);
             ssxym = mean (map (\<lambda>(u, v). (u - xmean) * (v - ymean)) (zip x ys));
             r = (if ssxm = 0 \<or> ssym = 0 then (if ssxym = 0 then NaN else Fin 0)
                  else Fin (max (- 1) (min 1 (ssxym / sqrt (ssxm * ssym)))));
             sl = ssxym / ssxm;
             ic = ymean - sl * xmean
         in if n = 2 then
              Inr \<lparr>slope = Fin sl, intercept = Fin ic, rvalue = r,
                   pvalue = Fin (if ys ! 0 = ys ! 1 then 1 else 0), stderr = Fin 0\<rparr>
            else
              (case r of
                 NaN \<Rightarrow>
                   Inr \<lparr>slope = Fin sl, intercept = Fin ic, rvalue = NaN,
                        pvalue = NaN, stderr = NaN\<rparr>
               | Fin rr \<Rightarrow>
                   (let df = n - 2;
                        t = rr * sqrt (of_nat df /
                              ((1 - rr + 1 / 10 ^ 20) * (1 + rr + 1 / 10 ^ 20)))
                    in Inr \<lparr>slope = Fin sl, intercept = Fin ic, rvalue = Fin rr,
                             pvalue = Fin (student_t_two_sided df t),
                             stderr = Fin (sqrt ((1 - rr ^ 2) * ssym / ssxm / of_nat df))\<rparr>))))"

section \<open>Notions used in the statements\<close>

text \<open>
  The order of cftime objects is the order of their dates; a cftime object has a month
  from 1 to 12. A time axis is non-decreasing when each timestamp is at or after the
  ones before it.
\<close>

definition cftime_le :: "cftime \<Rightarrow> cftime \<Rightarrow> bool" where
  "cftime_le a b =
     (year a < year b \<or>
      (year a = year b \<and> (month a < month b \<or> (month a = month b \<and> day a \<le> day b))))"

definition valid_cftime :: "cftime \<Rightarrow> bool" where
  "valid_cftime t = (1 \<le> month t \<and> month t \<le> 12)"

fun valid_time_array :: "time_array \<Rightarrow> bool" where
  "valid_time_array (CFTimeArray ts) = list_all valid_cftime ts"
| "valid_time_array (DateTime64Array ks) = True"

fun non_decreasing :: "time_array \<Rightarrow> bool" where
  "non_decreasing (CFTimeArray ts) = sorted_wrt cftime_le ts"
| "non_decreasing (DateTime64Array ks) = sorted ks"

fun array_length :: "time_array \<Rightarrow> nat" where
  "array_length (CFTimeArray ts) = length ts"
| "array_length (DateTime64Array ks) = length ks"

text \<open>
  The fractional year that the specification asks for on standard date/time values:
  the calendar year plus the fraction of that year elapsed to the day, in the
  proleptic Gregorian calendar, for a \<^verbatim>\<open>datetime64\<close> counting nanoseconds from
  1970-01-01. It follows the specification's words, not the code.
\<close>

definition leap_years_to :: "int \<Rightarrow> int" where
  "leap_years_to y = y div 4 - y div 100 + y div 400"

definition spec_days_before_year :: "int \<Rightarrow> int" where
  "spec_days_before_year y = 365 * (y - 1970) + (leap_years_to (y - 1) - leap_years_to 1969)"

definition spec_year_of_day :: "int \<Rightarrow> int" where
  "spec_year_of_day d =
     (let y = 1970 + (d * 400) div 146097
      in if d < spec_days_before_year y then y - 1
         else if spec_days_before_year (y + 1) \<le> d then y + 1 else y)"

definition spec_fractional_year :: "int \<Rightarrow> real" where
  "spec_fractional_year ticks =
     (let d = ticks div 86400000000000;
          y = spec_year_of_day d
      in of_int y + of_int (d - spec_days_before_year y) /
           of_int (spec_days_before_year (y + 1) - spec_days_before_year y))"


definition all_identical :: "real list \<Rightarrow> bool" where
  "all_identical xs = list_all (\<lambda>x. x = hd xs) xs"

section \<open>Properties of the time conversion\<close>

lemma cftime_mono:
  assumes "valid_cftime a" "valid_cftime b" "cftime_le a b"
  shows "(of_int (year a) + of_nat (month a) / 12 :: real) \<le> of_int (year b) + of_nat (month b) / 12"
proof (cases "year a < year b")
  case True
  then have "(of_int (year a) :: real) + 1 \<le> of_int (year b)"
    by linarith
  moreover have "(of_nat (month a) :: real) / 12 \<le> 1"
    using assms(1) by (simp add: valid_cftime_def)
  moreover have "(0 :: real) \<le> of_nat (month b) / 12"
    by simp
  ultimately show ?thesis by linarith
next
  case False
  with assms(3) have "year a = year b" "month a \<le> month b"
    by (auto simp: cftime_le_def)
  then show ?thesis by simp
qed

lemma sorted_cftime:
  assumes "list_all valid_cftime ts" and "sorted_wrt cftime_le ts"
  shows "sorted (map (\<lambda>t. of_int (year t) + of_nat (month t) / 12 :: real) ts)"
  using assms
  by (induction ts) (auto simp: cftime_mono list_all_iff)

lemma sorted_of_int: "sorted ks \<Longrightarrow> sorted (map of_int ks :: real list)"
  by (induction ks) auto

lemma convert_cftime:
  assumes "time_var ds = Some (CFTimeArray ts)"
  shows "snd (convert_time_to_numeric ds) =
           (if 2 \<le> length ts
            then Inr (Some (map (\<lambda>t. of_int (year t) + of_nat (month t) / 12) ts))
            else Inl IndexError)"
proof (cases ts)
  case Nil
  with assms show ?thesis by (simp add: convert_time_to_numeric_def)
next
  case (Cons t ts')
  with assms show ?thesis
    by (cases ts') (simp_all add: convert_time_to_numeric_def Let_def)
qed

lemma convert_datetime64:
  assumes "time_var ds = Some (DateTime64Array ks)"
  shows "convert_time_to_numeric ds =
           (if ks = [] then ([], Inl IndexError) else ([], Inr (Some (map of_int ks))))"
  using assms by (cases ks) (simp_all add: convert_time_to_numeric_def)

lemma year_month_map:
  assumes "map year ts' = map year ts" and "map month ts' = map month ts"
  shows "map (\<lambda>t. of_int (year t) + of_nat (month t) / 12 :: real) ts' =
         map (\<lambda>t. of_int (year t) + of_nat (month t) / 12) ts"
proof -
  from assms(1) have l: "length ts' = length ts"
    by (rule map_eq_imp_length_eq)
  have "of_int (year (ts' ! i)) + of_nat (month (ts' ! i)) / 12 =
        (of_int (year (ts ! i)) + of_nat (month (ts ! i)) / 12 :: real)" if "i < length ts" for i
  proof -
    from that l have "year (ts' ! i) = map year ts' ! i" "month (ts' ! i) = map month ts' ! i"
      "year (ts ! i) = map year ts ! i" "month (ts ! i) = map month ts ! i"
      by simp_all
    then have "year (ts' ! i) = year (ts ! i)" "month (ts' ! i) = month (ts ! i)"
      by (simp_all only: assms)
    then show ?thesis by (simp only:)
  qed
  with l show ?thesis
    by (intro nth_equalityI) simp_all
qed

text \<open>
  C8: when the time axis is non-decreasing (its cftime objects with months from 1 to
  12) and \<^verbatim>\<open>convert_time_to_numeric\<close> returns an array, that array has the length of
  the time axis and is non-decreasing.
\<close>

theorem normalize_monotone:
  assumes "time_var ds = Some a" and "valid_time_array a" and "non_decreasing a"
    and "snd (convert_time_to_numeric ds) = Inr (Some tv)"
  shows "length tv = array_length a \<and> sorted tv"
proof (cases a)
  case (CFTimeArray ts)
  with assms(1,4) have "tv = map (\<lambda>t. of_int (year t) + of_nat (month t) / 12) ts"
    by (simp add: convert_cftime split: if_splits)
  with assms(2,3) CFTimeArray show ?thesis
    by (simp add: sorted_cftime)
next
  case (DateTime64Array ks)
  with assms(1,4) have "tv = map of_int ks"
    by (simp add: convert_datetime64 split: if_splits)
  with assms(3) DateTime64Array show ?thesis
    by (simp add: sorted_of_int)
qed

text \<open>
  An axis that crosses a year boundary and repeats a month.
\<close>

theorem normalize_monotone_witness:
  "snd (convert_time_to_numeric
     \<lparr>time_var = Some (CFTimeArray
        [\<lparr>year = 1850, month = 12, day = 31\<rparr>, \<lparr>year = 1851, month = 1, day = 1\<rparr>,
         \<lparr>year = 1851, month = 1, day = 28\<rparr>]),
      data_vars = Map.empty\<rparr>) = Inr (Some [1851, 1851 + 1 / 12, 1851 + 1 / 12])
   \<and> length [1851, 1851 + 1 / 12, 1851 + 1 / 12 :: real] = 3
   \<and> sorted [1851, 1851 + 1 / 12, 1851 + 1 / 12 :: real]"
proof -
  let ?ts = "[\<lparr>year = 1850, month = 12, day = 31\<rparr>, \<lparr>year = 1851, month = 1, day = 1\<rparr>,
         \<lparr>year = 1851, month = 1, day = 28\<rparr>]"
  let ?ds = "\<lparr>time_var = Some (CFTimeArray ?ts), data_vars = Map.empty\<rparr>"
  have c: "snd (convert_time_to_numeric ?ds) = Inr (Some [1851, 1851 + 1 / 12, 1851 + 1 / 12])"
    by (simp add: convert_time_to_numeric_def)
  have v: "valid_time_array (CFTimeArray ?ts)"
    by (simp add: valid_cftime_def)
  have n: "non_decreasing (CFTimeArray ?ts)"
    by (simp add: cftime_le_def)
  have t: "time_var ?ds = Some (CFTimeArray ?ts)" by simp
  from normalize_monotone [OF t v n c] c show ?thesis by simp
qed

text \<open>
  C7 at a time axis of one cftime timestamp, of year 1850 and month 3:
  \<^verbatim>\<open>convert_time_to_numeric\<close> has computed the value of the timestamp when it reads
  \<^verbatim>\<open>numeric_time[1]\<close> for the printed step, which raises IndexError; no value is
  returned for the timestamp, whatever its day.
\<close>

theorem single_cftime_timestamp_not_converted:
  "convert_time_to_numeric
     \<lparr>time_var = Some (CFTimeArray [\<lparr>year = 1850, month = 3, day = d\<rparr>]), data_vars = vars\<rparr>
   = ([Msg_converting_cftime], Inl IndexError)"
  by (simp add: convert_time_to_numeric_def)

text \<open>
  On a time axis of two or more cftime objects the printed step can be computed, and
  \<^verbatim>\<open>convert_time_to_numeric\<close> returns, for each timestamp, its year plus its month
  divided by 12. The day of the month is ignored: an axis with the same years and
  months gives the same result, whatever its days.
\<close>

theorem normalize_cftime_formula:
  assumes "time_var ds = Some (CFTimeArray ts)" and "2 \<le> length ts"
  shows "snd (convert_time_to_numeric ds) =
           Inr (Some (map (\<lambda>t. of_int (year t) + of_nat (month t) / 12) ts))
         \<and> (\<forall>ts' :: cftime list. map year ts' = map year ts \<and> map month ts' = map month ts \<longrightarrow>
              snd (convert_time_to_numeric (ds\<lparr>time_var := Some (CFTimeArray ts')\<rparr>)) =
              snd (convert_time_to_numeric ds))"
proof (intro conjI allI impI)
  show r: "snd (convert_time_to_numeric ds) =
           Inr (Some (map (\<lambda>t. of_int (year t) + of_nat (month t) / 12) ts))"
    using assms by (simp add: convert_cftime)
  fix ts' :: "cftime list"
  assume e: "map year ts' = map year ts \<and> map month ts' = map month ts"
  then have "length ts' = length ts"
    by (blast dest: map_eq_imp_length_eq)
  with assms(2) have "snd (convert_time_to_numeric (ds\<lparr>time_var := Some (CFTimeArray ts')\<rparr>)) =
           Inr (Some (map (\<lambda>t. of_int (year t) + of_nat (month t) / 12) ts'))"
    by (simp add: convert_cftime)
  also from e have "map (\<lambda>t. of_int (year t) + of_nat (month t) / 12 :: real) ts' =
      map (\<lambda>t. of_int (year t) + of_nat (month t) / 12) ts"
    by (intro year_month_map) simp_all
  finally show "snd (convert_time_to_numeric (ds\<lparr>time_var := Some (CFTimeArray ts')\<rparr>)) =
              snd (convert_time_to_numeric ds)"
    by (simp only: r)
qed

text \<open>
  March and April 1850, on two different pairs of days.
\<close>

theorem normalize_cftime_formula_witness:
  "snd (convert_time_to_numeric
     \<lparr>time_var = Some (CFTimeArray
        [\<lparr>year = 1850, month = 3, day = 1\<rparr>, \<lparr>year = 1850, month = 4, day = 1\<rparr>]),
      data_vars = Map.empty\<rparr>) = Inr (Some [7401 / 4, 1850 + 4 / 12])
   \<and> snd (convert_time_to_numeric
     \<lparr>time_var = Some (CFTimeArray
        [\<lparr>year = 1850, month = 3, day = 28\<rparr>, \<lparr>year = 1850, month = 4, day = 15\<rparr>]),
      data_vars = Map.empty\<rparr>) = Inr (Some [7401 / 4, 1850 + 4 / 12])"
proof -
  let ?ts = "[\<lparr>year = 1850, month = 3, day = 1\<rparr>, \<lparr>year = 1850, month = 4, day = 1\<rparr>]"
  let ?ts' = "[\<lparr>year = 1850, month = 3, day = 28\<rparr>, \<lparr>year = 1850, month = 4, day = 15\<rparr>]"
  let ?ds = "\<lparr>time_var = Some (CFTimeArray ?ts), data_vars = Map.empty\<rparr>"
  have h: "time_var ?ds = Some (CFTimeArray ?ts)" "2 \<le> length ?ts"
    by simp_all
  note t = normalize_cftime_formula [OF h]
  from t [THEN conjunct1]
  have 1: "snd (convert_time_to_numeric ?ds) = Inr (Some [7401 / 4, 1850 + 4 / 12])"
    by simp
  have e: "map year ?ts' = map year ?ts \<and> map month ?ts' = map month ?ts"
    by simp
  from t [THEN conjunct2, THEN spec, of ?ts', THEN mp, OF e]
  have "snd (convert_time_to_numeric (?ds\<lparr>time_var := Some (CFTimeArray ?ts')\<rparr>)) =
      snd (convert_time_to_numeric ?ds)" .
  with 1 show ?thesis by simp
qed

text \<open>
  C2, as amended: on a non-empty time axis of standard date/time values
  \<^verbatim>\<open>convert_time_to_numeric\<close> returns each value's stored number as a float (the count
  since the epoch), and prints nothing; no calendar year or fraction of a year is
  computed.
\<close>

theorem normalize_standard_is_stored_value:
  assumes "time_var ds = Some (DateTime64Array ks)" and "ks \<noteq> []"
  shows "convert_time_to_numeric ds = ([], Inr (Some (map of_int ks)))"
  using assms by (simp add: convert_datetime64)

text \<open>
  2000-01-01 and 2000-02-01 as nanoseconds since the epoch.
\<close>

theorem normalize_standard_is_stored_value_witness:
  "convert_time_to_numeric
     \<lparr>time_var = Some (DateTime64Array [946684800000000000, 949363200000000000]),
      data_vars = Map.empty\<rparr> = ([], Inr (Some [946684800000000000, 949363200000000000]))"
  using normalize_standard_is_stored_value
    [of "\<lparr>time_var = Some (DateTime64Array [946684800000000000, 949363200000000000]),
      data_vars = Map.empty\<rparr>" "[946684800000000000, 949363200000000000]"]
  by simp

text \<open>
  On 2000-01-01 and 2000-02-01 the code returns the stored nanoseconds, where the
  fractional years of the specification are 2000 and 2000 + 31/366.
\<close>

theorem normalize_standard_counterexample:
  "snd (convert_time_to_numeric
     \<lparr>time_var = Some (DateTime64Array [946684800000000000, 949363200000000000]),
      data_vars = Map.empty\<rparr>) = Inr (Some [946684800000000000, 949363200000000000])
   \<and> map spec_fractional_year [946684800000000000, 949363200000000000] = [2000, 2000 + 31 / 366]"
  by (simp add: convert_time_to_numeric_def spec_fractional_year_def spec_year_of_day_def
      spec_days_before_year_def leap_years_to_def)

text \<open>
  C5, as amended: \<^verbatim>\<open>convert_time_to_numeric\<close> has one error result. It prints an
  error and returns \<^verbatim>\<open>None\<close> when the dataset has no time coordinate, and it never
  returns \<^verbatim>\<open>None\<close> when there is one, empty or not: an empty time axis has no error
  result of its own.
\<close>

theorem normalize_missing_vs_empty:
  "convert_time_to_numeric (ds\<lparr>time_var := None\<rparr>) = ([Msg_no_time_variable], Inr None)
   \<and> snd (convert_time_to_numeric (ds\<lparr>time_var := Some a\<rparr>)) \<noteq> Inr None"
  by (simp add: convert_time_to_numeric_def Let_def split: time_array.splits list.splits)

text \<open>
  An empty time axis ends in an exception, not in an error result.
\<close>

theorem normalize_empty_counterexample:
  "snd (convert_time_to_numeric \<lparr>time_var = Some (CFTimeArray []), data_vars = Map.empty\<rparr>)
     = Inl IndexError"
  by (simp add: convert_time_to_numeric_def)

section \<open>Properties of the trend computation\<close>


lemma convert_Some_time:
  assumes "convert_time_to_numeric ds = (out, Inr (Some tv))"
  shows "in_ds ds ''time''"
  using assms by (auto simp: convert_time_to_numeric_def in_ds_def split: option.splits)

lemma convert_None_iff:
  "snd (convert_time_to_numeric ds) = Inr None \<longleftrightarrow> \<not> in_ds ds ''time''"
  by (auto simp: convert_time_to_numeric_def in_ds_def Let_def
      split: option.splits time_array.splits list.splits)

lemma vectorize_ok:
  "list_all (\<lambda>y. \<not> isl (f y)) ys \<Longrightarrow> vectorize f ys = Inr (map (\<lambda>y. projr (f y)) ys)"
  by (induction ys) (auto split: sum.splits)

lemma vectorize_fail:
  "\<not> list_all (\<lambda>y. \<not> isl (f y)) ys \<Longrightarrow> isl (vectorize f ys)"
  by (induction ys) (auto split: sum.splits)


lemma compute_after_checks:
  assumes "in_ds ds v" and "convert_time_to_numeric ds = (out, Inr (Some tv))"
    and "2 \<le> length tv"
  shows "compute_linear_trend lr ds v =
           (case (if v = ''time'' then Inl TypeError
                  else (case data_vars ds v of
                          None \<Rightarrow> Inl KeyError
                        | Some a \<Rightarrow> apply_ufunc (linreg lr tv) a)) of
              Inl e \<Rightarrow> (Msg_computing_trend v # out @ [Msg_trend_failed], Inr None)
            | Inr (s, p) \<Rightarrow>
                (Msg_computing_trend v # out @ [Msg_trend_computed v], Inr (Some (s, p))))"
  using assms convert_Some_time [OF assms(2)]
  by (simp add: compute_linear_trend_def)

lemma scipy_constant_x:
  assumes "all_identical x" and "2 \<le> length x" and "length y = length x"
    and "\<not> list_ex is_nan y"
  shows "scipy_linregress x y = Inl ValueError"
proof -
  from assms have "x \<noteq> []" by auto
  moreover from assms(1) have "set x \<subseteq> {hd x}"
    by (auto simp: all_identical_def list_all_iff)
  ultimately have "set x = {hd x}"
    by (cases x) auto
  then have "Max (set x) = Min (set x)" by simp
  with assms(2,3,4) show ?thesis
    by (simp add: scipy_linregress_def)
qed

lemma scipy_nan_first:
  assumes "list_ex is_nan y"
  shows "scipy_linregress x y = Inr nan_result"
  using assms by (simp add: scipy_linregress_def)

lemma compute_after_checks_returns:
  assumes "in_ds ds v" and "convert_time_to_numeric ds = (out, Inr (Some tv))"
    and "2 \<le> length tv"
  shows "\<not> isl (snd (compute_linear_trend lr ds v))"
  unfolding compute_after_checks [OF assms]
  by (simp split: sum.splits prod.splits)

text \<open>
  C6, as amended: when the converted time axis has two or more values, all identical,
  and the series of the variable have the length of the time axis, no exception reaches
  the caller, whatever the regression routine does. With the library's regression,
  \<^verbatim>\<open>compute_linear_trend\<close> prints that the trend computation failed and returns
  \<^verbatim>\<open>(None, None)\<close> as soon as one coordinate's series is free of NaN, for the library
  raises on identical time values. Only when every coordinate's series contains NaN
  does the library answer NaN for each, before it looks at the time values, and the
  result, NaN in every entry, is printed and returned as a success.
\<close>

theorem constant_time_axis_outcome:
  assumes "v \<noteq> ''time''" and "data_vars ds v = Some a" and "''time'' \<in> set (dims a)"
    and "convert_time_to_numeric ds = (out, Inr (Some tv))"
    and "2 \<le> length tv" and "all_identical tv"
    and "list_all (\<lambda>y. length y = length tv) (series a)"
  shows "compute_linear_trend scipy_linregress ds v =
           (if series a \<noteq> [] \<and> list_all (list_ex is_nan) (series a)
            then (Msg_computing_trend v # out @ [Msg_trend_computed v],
                  Inr (Some (map (\<lambda>y. NaN) (series a), map (\<lambda>y. NaN) (series a))))
            else (Msg_computing_trend v # out @ [Msg_trend_failed], Inr None))
         \<and> (\<forall>lr. \<not> isl (snd (compute_linear_trend lr ds v)))"
proof (rule conjI)
  let ?f = "linreg scipy_linregress tv"
  have i: "in_ds ds v"
    using assms(1,2) by (simp add: in_ds_def)
  have nan: "?f y = Inr (NaN, NaN)" if "list_ex is_nan y" for y
    using that by (simp add: linreg_def scipy_nan_first nan_result_def)
  have raise: "?f y = Inl ValueError" if "y \<in> set (series a)" and "\<not> list_ex is_nan y" for y
  proof -
    from that(1) assms(7) have "length y = length tv"
      by (simp add: list_all_iff)
    from scipy_constant_x [OF assms(6,5) this that(2)] show ?thesis
      by (simp add: linreg_def)
  qed
  have c: "compute_linear_trend scipy_linregress ds v =
      (case apply_ufunc ?f a of
         Inl e \<Rightarrow> (Msg_computing_trend v # out @ [Msg_trend_failed], Inr None)
       | Inr (s, p) \<Rightarrow>
           (Msg_computing_trend v # out @ [Msg_trend_computed v], Inr (Some (s, p))))"
    using assms(1,2) by (simp add: compute_after_checks [OF i assms(4,5)])
  show "compute_linear_trend scipy_linregress ds v =
           (if series a \<noteq> [] \<and> list_all (list_ex is_nan) (series a)
            then (Msg_computing_trend v # out @ [Msg_trend_computed v],
                  Inr (Some (map (\<lambda>y. NaN) (series a), map (\<lambda>y. NaN) (series a))))
            else (Msg_computing_trend v # out @ [Msg_trend_failed], Inr None))"
  proof (cases "series a = []")
    case True
    then show ?thesis
      by (simp add: c apply_ufunc_def)
  next
    case ne: False
    show ?thesis
    proof (cases "list_all (list_ex is_nan) (series a)")
      case True
      then have ok: "list_all (\<lambda>y. \<not> isl (?f y)) (series a)"
        by (simp add: list_all_iff nan)
      from True have "map (\<lambda>y. projr (?f y)) (series a) = map (\<lambda>y. (NaN, NaN)) (series a)"
        by (simp add: list_all_iff nan)
      with vectorize_ok [OF ok]
      have "vectorize ?f (series a) = Inr (map (\<lambda>y. (NaN, NaN)) (series a))"
        by simp
      with ne True assms(3) show ?thesis
        by (simp add: c apply_ufunc_def comp_def)
    next
      case False
      then obtain y where "y \<in> set (series a)" and "\<not> list_ex is_nan y"
        by (auto simp: list_all_iff)
      then have "isl (?f y)"
        by (simp add: raise)
      with \<open>y \<in> set (series a)\<close> have "\<not> list_all (\<lambda>y. \<not> isl (?f y)) (series a)"
        by (auto simp: list_all_iff)
      then have "isl (vectorize ?f (series a))"
        by (rule vectorize_fail)
      then obtain e where "vectorize ?f (series a) = Inl e"
        by (cases "vectorize ?f (series a)") auto
      with ne False assms(3) show ?thesis
        by (simp add: c apply_ufunc_def)
    qed
  qed
next
  have "in_ds ds v"
    using assms(1,2) by (simp add: in_ds_def)
  from compute_after_checks_returns [OF this assms(4,5)]
  show "\<forall>lr. \<not> isl (snd (compute_linear_trend lr ds v))"
    by blast
qed

text \<open>
  The time axis 5, 5, 5 with two coordinates free of NaN.
\<close>

theorem constant_time_axis_outcome_witness:
  "compute_linear_trend scipy_linregress
     \<lparr>time_var = Some (DateTime64Array [5, 5, 5]),
      data_vars = [''pr'' \<mapsto> \<lparr>dims = [''time'', ''lat''],
                                 series = [[Fin 1, Fin 2, Fin 3], [Fin 4, Fin 4, Fin 4]]\<rparr>]\<rparr> ''pr''
   = ([Msg_computing_trend ''pr'', Msg_trend_failed], Inr None)"
proof -
  let ?a = "\<lparr>dims = [''time'', ''lat''],
             series = [[Fin 1, Fin 2, Fin 3], [Fin 4, Fin 4, Fin 4]]\<rparr>"
  let ?ds = "\<lparr>time_var = Some (DateTime64Array [5, 5, 5]), data_vars = [''pr'' \<mapsto> ?a]\<rparr>"
  have h: "''pr'' \<noteq> ''time''" "data_vars ?ds ''pr'' = Some ?a" "''time'' \<in> set (dims ?a)"
    by simp_all
  have b: "convert_time_to_numeric ?ds = ([], Inr (Some [5, 5, 5]))"
    by (simp add: convert_time_to_numeric_def)
  have g: "2 \<le> length [5, 5, 5 :: real]" "all_identical [5, 5, 5]"
    "list_all (\<lambda>y. length y = length [5, 5, 5 :: real]) (series ?a)"
    by (simp_all add: all_identical_def)
  from constant_time_axis_outcome [OF h b g, THEN conjunct1] show ?thesis
    by (simp add: is_nan_def)
qed

text \<open>
  The time axis 5, 5, 5 with one coordinate whose series has a missing value: the
  result is a success that holds NaN, not a failure.
\<close>

theorem constant_time_axis_counterexample:
  "compute_linear_trend scipy_linregress
     \<lparr>time_var = Some (DateTime64Array [5, 5, 5]),
      data_vars = [''pr'' \<mapsto> \<lparr>dims = [''time''], series = [[Fin 1, NaN, Fin 3]]\<rparr>]\<rparr> ''pr''
   = ([Msg_computing_trend ''pr'', Msg_trend_computed ''pr''], Inr (Some ([NaN], [NaN])))"
  by (simp add: compute_linear_trend_def in_ds_def convert_time_to_numeric_def apply_ufunc_def
      linreg_def scipy_linregress_def is_nan_def nan_result_def)










lemma not_identical_Max_Min:
  assumes "\<not> all_identical x"
  shows "Max (set x) \<noteq> Min (set x)"
proof
  assume eq: "Max (set x) = Min (set x)"
  have "y = hd x" if "y \<in> set x" for y
  proof -
    from that have ne: "x \<noteq> []" by auto
    then have "hd x \<in> set x" by simp
    then have "Min (set x) \<le> hd x" "hd x \<le> Max (set x)" by simp_all
    moreover from that have "Min (set x) \<le> y" "y \<le> Max (set x)" by simp_all
    ultimately show ?thesis using eq by linarith
  qed
  then have "all_identical x"
    by (simp add: all_identical_def list_all_iff)
  with assms show False by simp
qed

lemma scipy_returns:
  assumes "3 \<le> length x" and "\<not> all_identical x" and "length y = length x"
  shows "\<not> isl (scipy_linregress x y)"
proof -
  from assms(1,3) have "\<not> length x \<le> 1" "\<not> length y \<le> 1" "length x \<noteq> 2" by auto
  with assms(3) not_identical_Max_Min [OF assms(2)] show ?thesis
    by (simp add: scipy_linregress_def Let_def split: fl.splits)
qed

text \<open>
  C3, as amended: \<^verbatim>\<open>compute_linear_trend\<close> has no check for missing values. With
  three or more time values, not all identical, and series as long as the time axis,
  a coordinate whose series contains NaN gets NaN as its slope and as its p-value from
  the library's regression, inside a result that is printed and returned as a success.
\<close>

theorem missing_values_reported_as_success:
  assumes "v \<noteq> ''time''" and "data_vars ds v = Some a" and "''time'' \<in> set (dims a)"
    and "convert_time_to_numeric ds = (out, Inr (Some tv))"
    and "3 \<le> length tv" and "\<not> all_identical tv"
    and "list_all (\<lambda>y. length y = length tv) (series a)"
    and "i < length (series a)" and "list_ex is_nan (series a ! i)"
  shows "\<exists>sl pv. compute_linear_trend scipy_linregress ds v =
                   (Msg_computing_trend v # out @ [Msg_trend_computed v], Inr (Some (sl, pv)))
                 \<and> length sl = length (series a) \<and> length pv = length (series a)
                 \<and> sl ! i = NaN \<and> pv ! i = NaN"
proof -
  let ?f = "linreg scipy_linregress tv"
  have "\<not> isl (?f y)" if "y \<in> set (series a)" for y
  proof -
    from that assms(7) have "length y = length tv"
      by (simp add: list_all_iff)
    from scipy_returns [OF assms(5,6) this] show ?thesis
      by (cases "scipy_linregress tv y") (simp_all add: linreg_def)
  qed
  then have ok: "list_all (\<lambda>y. \<not> isl (?f y)) (series a)"
    by (simp add: list_all_iff)
  from assms(8) have ne: "series a \<noteq> []" by auto
  let ?rs = "map (\<lambda>y. projr (?f y)) (series a)"
  have ap: "apply_ufunc ?f a = Inr (map fst ?rs, map snd ?rs)"
    using assms(3) ne by (simp add: apply_ufunc_def vectorize_ok [OF ok])
  from scipy_nan_first [OF assms(9)]
  have "?f (series a ! i) = Inr (NaN, NaN)"
    by (simp add: linreg_def nan_result_def)
  with assms(8) have "map fst ?rs ! i = NaN" "map snd ?rs ! i = NaN"
    by simp_all
  moreover have "in_ds ds v" "2 \<le> length tv"
    using assms(1,2,5) by (simp_all add: in_ds_def)
  then have "compute_linear_trend scipy_linregress ds v =
      (Msg_computing_trend v # out @ [Msg_trend_computed v], Inr (Some (map fst ?rs, map snd ?rs)))"
    using assms(1,2) ap by (simp add: compute_after_checks [OF _ assms(4)])
  ultimately show ?thesis
    by (intro exI [of _ "map fst ?rs"] exI [of _ "map snd ?rs"]) simp
qed

text \<open>
  Three monthly timestamps; the second coordinate has no value at all.
\<close>

theorem missing_values_reported_as_success_witness:
  "\<exists>sl pv. compute_linear_trend scipy_linregress
       \<lparr>time_var = Some (CFTimeArray
          [\<lparr>year = 1850, month = 1, day = 1\<rparr>, \<lparr>year = 1850, month = 2, day = 1\<rparr>,
           \<lparr>year = 1850, month = 3, day = 1\<rparr>]),
        data_vars = [''pr'' \<mapsto> \<lparr>dims = [''time'', ''lat''],
                                   series = [[Fin 1, Fin 2, Fin 4], [NaN, NaN, NaN]]\<rparr>]\<rparr> ''pr''
     = ([Msg_computing_trend ''pr'', Msg_converting_cftime,
         Msg_time_range (1850 + 1 / 12) (1850 + 3 / 12) 1, Msg_trend_computed ''pr''],
        Inr (Some (sl, pv)))
     \<and> length sl = 2 \<and> length pv = 2 \<and> sl ! 1 = NaN \<and> pv ! 1 = NaN"
proof -
  let ?a = "\<lparr>dims = [''time'', ''lat''], series = [[Fin 1, Fin 2, Fin 4], [NaN, NaN, NaN]]\<rparr>"
  let ?ds = "\<lparr>time_var = Some (CFTimeArray
          [\<lparr>year = 1850, month = 1, day = 1\<rparr>, \<lparr>year = 1850, month = 2, day = 1\<rparr>,
           \<lparr>year = 1850, month = 3, day = 1\<rparr>]), data_vars = [''pr'' \<mapsto> ?a]\<rparr>"
  let ?tv = "[1850 + 1 / 12, 1850 + 2 / 12, 1850 + 3 / 12 :: real]"
  have c: "convert_time_to_numeric ?ds =
      ([Msg_converting_cftime, Msg_time_range (1850 + 1 / 12) (1850 + 3 / 12) 1], Inr (Some ?tv))"
    by (simp add: convert_time_to_numeric_def py_round_def)
  have h: "''pr'' \<noteq> ''time''" "data_vars ?ds ''pr'' = Some ?a" "''time'' \<in> set (dims ?a)"
    by simp_all
  have g: "3 \<le> length ?tv" "\<not> all_identical ?tv"
    "list_all (\<lambda>y. length y = length ?tv) (series ?a)" "1 < length (series ?a)"
    "list_ex is_nan (series ?a ! 1)"
    by (simp_all add: all_identical_def is_nan_def)
  from missing_values_reported_as_success [OF h c g] show ?thesis
    by (simp add: numeral_2_eq_2)
qed

text \<open>
  A series with a missing value in the middle: the result is a success that holds
  NaN.
\<close>

theorem missing_values_counterexample:
  "compute_linear_trend scipy_linregress
     \<lparr>time_var = Some (DateTime64Array [0, 1, 2]),
      data_vars = [''pr'' \<mapsto> \<lparr>dims = [''time''], series = [[Fin 1, NaN, Fin 3]]\<rparr>]\<rparr> ''pr''
   = ([Msg_computing_trend ''pr'', Msg_trend_computed ''pr''], Inr (Some ([NaN], [NaN])))"
  by (simp add: compute_linear_trend_def in_ds_def convert_time_to_numeric_def apply_ufunc_def
      linreg_def scipy_linregress_def is_nan_def nan_result_def)

lemma convert_never_prints_failed:
  "Msg_time_conversion_failed \<notin> set (fst (convert_time_to_numeric ds))"
  by (simp add: convert_time_to_numeric_def Let_def
      split: option.splits time_array.splits list.splits)

text \<open>
  C4, as amended: \<^verbatim>\<open>compute_linear_trend\<close> checks first that the variable exists,
  then that the time coordinate exists, then (once the conversion has returned an
  array) that it has two values or more. Each check that fails prints a message of its
  own and returns the same pair \<^verbatim>\<open>(None, None)\<close>. The check between them, for a
  conversion that returned \<^verbatim>\<open>None\<close>, never fires: its message is never printed.
\<close>

theorem precondition_order:
  "(\<not> in_ds ds v \<longrightarrow>
      compute_linear_trend lr ds v =
        ([Msg_computing_trend v, Msg_variable_not_found v], Inr None))
   \<and> (in_ds ds v \<and> \<not> in_ds ds ''time'' \<longrightarrow>
      compute_linear_trend lr ds v =
        ([Msg_computing_trend v, Msg_no_time_dimension], Inr None))
   \<and> (in_ds ds v \<and> in_ds ds ''time'' \<and>
        (\<exists>tv. snd (convert_time_to_numeric ds) = Inr (Some tv) \<and> length tv < 2) \<longrightarrow>
      compute_linear_trend lr ds v =
        (Msg_computing_trend v # fst (convert_time_to_numeric ds) @ [Msg_not_enough_time_points],
         Inr None))
   \<and> Msg_time_conversion_failed \<notin> set (fst (compute_linear_trend lr ds v))"
proof (intro conjI impI)
  assume "\<not> in_ds ds v"
  then show "compute_linear_trend lr ds v =
        ([Msg_computing_trend v, Msg_variable_not_found v], Inr None)"
    by (simp add: compute_linear_trend_def)
next
  assume "in_ds ds v \<and> \<not> in_ds ds ''time''"
  then show "compute_linear_trend lr ds v =
        ([Msg_computing_trend v, Msg_no_time_dimension], Inr None)"
    by (simp add: compute_linear_trend_def)
next
  assume "in_ds ds v \<and> in_ds ds ''time'' \<and>
        (\<exists>tv. snd (convert_time_to_numeric ds) = Inr (Some tv) \<and> length tv < 2)"
  then show "compute_linear_trend lr ds v =
        (Msg_computing_trend v # fst (convert_time_to_numeric ds) @ [Msg_not_enough_time_points],
         Inr None)"
    by (cases "convert_time_to_numeric ds") (auto simp: compute_linear_trend_def)
next
  have n: "snd (convert_time_to_numeric ds) \<noteq> Inr None" if "in_ds ds ''time''"
    using that by (simp add: convert_None_iff)
  obtain out r where c: "convert_time_to_numeric ds = (out, r)"
    by (cases "convert_time_to_numeric ds")
  with convert_never_prints_failed [of ds] have o: "Msg_time_conversion_failed \<notin> set out"
    by simp
  show "Msg_time_conversion_failed \<notin> set (fst (compute_linear_trend lr ds v))"
    using n c o
    by (auto simp: compute_linear_trend_def split: sum.splits option.splits prod.splits)
qed

text \<open>
  A dataset without the variable, one without time, one with a single timestamp.
\<close>

theorem precondition_order_witness:
  "compute_linear_trend scipy_linregress \<lparr>time_var = None, data_vars = Map.empty\<rparr> ''pr'' =
     ([Msg_computing_trend ''pr'', Msg_variable_not_found ''pr''], Inr None)
   \<and> compute_linear_trend scipy_linregress
       \<lparr>time_var = None, data_vars = [''pr'' \<mapsto> \<lparr>dims = [''time''], series = [[Fin 1]]\<rparr>]\<rparr> ''pr'' =
     ([Msg_computing_trend ''pr'', Msg_no_time_dimension], Inr None)
   \<and> compute_linear_trend scipy_linregress
       \<lparr>time_var = Some (DateTime64Array [0]),
        data_vars = [''pr'' \<mapsto> \<lparr>dims = [''time''], series = [[Fin 1]]\<rparr>]\<rparr> ''pr'' =
     ([Msg_computing_trend ''pr'', Msg_not_enough_time_points], Inr None)"
proof -
  let ?a = "\<lparr>dims = [''time''], series = [[Fin 1]]\<rparr>"
  let ?d1 = "\<lparr>time_var = None, data_vars = Map.empty\<rparr>"
  let ?d2 = "\<lparr>time_var = None, data_vars = [''pr'' \<mapsto> ?a]\<rparr>"
  let ?d3 = "\<lparr>time_var = Some (DateTime64Array [0]), data_vars = [''pr'' \<mapsto> ?a]\<rparr>"
  have "\<not> in_ds ?d1 ''pr''"
    by (simp add: in_ds_def)
  with precondition_order [of ?d1 "''pr''" scipy_linregress]
  have 1: "compute_linear_trend scipy_linregress ?d1 ''pr'' =
     ([Msg_computing_trend ''pr'', Msg_variable_not_found ''pr''], Inr None)"
    by blast
  have "in_ds ?d2 ''pr'' \<and> \<not> in_ds ?d2 ''time''"
    by (simp add: in_ds_def)
  with precondition_order [of ?d2 "''pr''" scipy_linregress]
  have 2: "compute_linear_trend scipy_linregress ?d2 ''pr'' =
     ([Msg_computing_trend ''pr'', Msg_no_time_dimension], Inr None)"
    by blast
  have c: "convert_time_to_numeric ?d3 = ([], Inr (Some [0]))"
    by (simp add: convert_time_to_numeric_def)
  then have "in_ds ?d3 ''pr'' \<and> in_ds ?d3 ''time'' \<and>
        (\<exists>tv. snd (convert_time_to_numeric ?d3) = Inr (Some tv) \<and> length tv < 2)"
    by (simp add: in_ds_def)
  with precondition_order [of ?d3 "''pr''" scipy_linregress]
  have "compute_linear_trend scipy_linregress ?d3 ''pr'' =
        (Msg_computing_trend ''pr'' # fst (convert_time_to_numeric ?d3) @ [Msg_not_enough_time_points],
         Inr None)"
    by blast
  with c have 3: "compute_linear_trend scipy_linregress ?d3 ''pr'' =
     ([Msg_computing_trend ''pr'', Msg_not_enough_time_points], Inr None)"
    by simp
  from 1 2 3 show ?thesis by blast
qed

text \<open>
  Three different violated preconditions, one returned value.
\<close>

theorem error_kinds_counterexample:
  "snd (compute_linear_trend scipy_linregress \<lparr>time_var = None, data_vars = Map.empty\<rparr> ''pr'')
     = Inr None
   \<and> snd (compute_linear_trend scipy_linregress
       \<lparr>time_var = None, data_vars = [''pr'' \<mapsto> \<lparr>dims = [''time''], series = [[Fin 1]]\<rparr>]\<rparr> ''pr'')
     = Inr None
   \<and> snd (compute_linear_trend scipy_linregress
       \<lparr>time_var = Some (DateTime64Array [0]),
        data_vars = [''pr'' \<mapsto> \<lparr>dims = [''time''], series = [[Fin 1]]\<rparr>]\<rparr> ''pr'')
     = Inr None"
  by (simp add: compute_linear_trend_def in_ds_def convert_time_to_numeric_def)

text \<open>
  C1 at a time axis of one cftime timestamp: \<^verbatim>\<open>convert_time_to_numeric\<close> reads
  \<^verbatim>\<open>numeric_time[1]\<close> for the printed step and raises IndexError, which
  \<^verbatim>\<open>compute_linear_trend\<close> does not catch, so the length check is not reached. With
  one \<^verbatim>\<open>datetime64\<close> timestamp the length check is reached and \<^verbatim>\<open>(None, None)\<close>
  is returned.
\<close>

theorem single_cftime_timestamp_raises:
  "compute_linear_trend scipy_linregress
     \<lparr>time_var = Some (CFTimeArray [\<lparr>year = 1850, month = 3, day = 1\<rparr>]),
      data_vars = [''pr'' \<mapsto> \<lparr>dims = [''time'', ''lat''], series = [[Fin 1], [Fin 2]]\<rparr>]\<rparr> ''pr''
     = ([Msg_computing_trend ''pr'', Msg_converting_cftime], Inl IndexError)
   \<and> compute_linear_trend scipy_linregress
     \<lparr>time_var = Some (DateTime64Array [0]),
      data_vars = [''pr'' \<mapsto> \<lparr>dims = [''time'', ''lat''], series = [[Fin 1], [Fin 2]]\<rparr>]\<rparr> ''pr''
     = ([Msg_computing_trend ''pr'', Msg_not_enough_time_points], Inr None)"
  by (simp add: compute_linear_trend_def in_ds_def convert_time_to_numeric_def)

text \<open>
  C10 at time axes with fewer than two timestamps: for every regression routine,
  variable and cftime timestamp, \<^verbatim>\<open>compute_linear_trend\<close> on a time axis of that one
  timestamp, or on an empty time axis, does not return \<^verbatim>\<open>(None, None)\<close>: the
  IndexError of the time conversion reaches the caller.
\<close>

theorem short_time_axis_escapes:
  "snd (compute_linear_trend lr
          \<lparr>time_var = Some (CFTimeArray [t]), data_vars = [v \<mapsto> a]\<rparr> v) = Inl IndexError
   \<and> snd (compute_linear_trend lr
          \<lparr>time_var = Some (CFTimeArray []), data_vars = [v \<mapsto> a]\<rparr> v) = Inl IndexError
   \<and> snd (compute_linear_trend lr
          \<lparr>time_var = Some (DateTime64Array []), data_vars = [v \<mapsto> a]\<rparr> v) = Inl IndexError"
  by (simp add: compute_linear_trend_def in_ds_def convert_time_to_numeric_def)

end
